theory Spec2Isabelle
  imports Main "HOL-Library.Word"
begin

unbundle bit_operations_syntax

section \<open>Data model\<close>

text \<open>
  The codec of \<^verbatim>\<open>src/oscProtocol.ts\<close> (optimized) and
  \<^verbatim>\<open>src/oscProtocol.slow.ts\<close> (reference).

  A \<^verbatim>\<open>Uint8Array\<close> is a list of bytes. A JavaScript string is the list of its UTF-16
  code units, so that \<open>length\<close> is the \<^verbatim>\<open>.length\<close> of the source. Offsets and sizes are
  JavaScript numbers holding integers; they are \<open>int\<close> here, and the 32-bit conversions of
  the bitwise operators are written out where the source has them.
\<close>

type_synonym byte = "8 word"
type_synonym jsstring = "16 word list"

text \<open>
  A JavaScript \<^verbatim>\<open>number\<close> is split by what \<^verbatim>\<open>Math.round(num) === num\<close> sees:
  an integer-valued finite double \<open>IntNum n\<close>, negative zero, an infinity (\<open>True\<close> for the
  negative one), and everything else (finite non-integers and NaN), which is kept abstract:
  its IEEE-754 images are taken from the \<^verbatim>\<open>DataView\<close> accessors below.
\<close>

typedecl nonint

datatype number = IntNum int | NegZero | Infinity bool | NonInt nonint

datatype OSCArg =
    OscString jsstring
  | OscNumber number
  | OscBoolean bool
  | OscBlob "byte list"

text \<open>
  The floating-point accessors of \<^verbatim>\<open>DataView\<close> are platform code. They are a parameter
  of every codec function: only their widths (4 and 8 bytes) are fixed, by the types.
\<close>

record DataView =
  setFloat32 :: "number \<Rightarrow> 32 word"
  setFloat64 :: "number \<Rightarrow> 64 word"
  getFloat32 :: "32 word \<Rightarrow> number"
  getFloat64 :: "64 word \<Rightarrow> number"

text \<open>
  A \<^verbatim>\<open>DataView\<close> for closed examples, none of which holds a non-integer number.
\<close>

definition plain_DataView :: DataView where
  "plain_DataView =
     \<lparr>setFloat32 = (\<lambda>n. 0), setFloat64 = (\<lambda>n. 0),
      getFloat32 = (\<lambda>w. IntNum 0), getFloat64 = (\<lambda>w. IntNum 0)\<rparr>"

datatype message =
    Length_not_multiple_of_4
  | Packet_too_short
  | Invalid_type_tag
  | Missing_type_tag
  | Addr_without_slash
  | Illegal_characters jsstring
  | More_bytes_written int int

text \<open>
  \<open>OSCProtocolError\<close> is the error class of the codec. \<open>RangeError\<close> is what the typed-array
  and \<^verbatim>\<open>DataView\<close> operations of the platform throw on an index or a length out of range,
  \<open>TypeError\<close> what they throw on \<^verbatim>\<open>undefined\<close>, \<open>AssertionError\<close> what \<^verbatim>\<open>assert\<close> throws.
\<close>

datatype error = OSCProtocolError message | RangeError | TypeError | AssertionError

record OSCEncoderOptions =
  oversize :: int
  f64 :: bool

definition no_options :: OSCEncoderOptions where
  "no_options = \<lparr>oversize = 0, f64 = False\<rparr>"

text \<open>
  Modelled from the spec: \<^verbatim>\<open>./ascii.ts\<close>, the table of character codes the codec imports,
  is not part of the sources. The spec names the characters (NUL, the comma, and the tags
  \<open>s i f d b T F\<close>); their codes are the ASCII ones.
\<close>

abbreviation ASCII_NULL :: byte where "ASCII_NULL \<equiv> 0"
abbreviation ASCII_COMMA :: byte where "ASCII_COMMA \<equiv> 44"
abbreviation ASCII_s :: byte where "ASCII_s \<equiv> 115"
abbreviation ASCII_i :: byte where "ASCII_i \<equiv> 105"
abbreviation ASCII_f :: byte where "ASCII_f \<equiv> 102"
abbreviation ASCII_d :: byte where "ASCII_d \<equiv> 100"
abbreviation ASCII_b :: byte where "ASCII_b \<equiv> 98"
abbreviation ASCII_T :: byte where "ASCII_T \<equiv> 84"
abbreviation ASCII_F :: byte where "ASCII_F \<equiv> 70"

section \<open>Alignment\<close>

text \<open>
  \<^verbatim>\<open>align4(x) = ((x | 0) + 3) & -4\<close>: \<^verbatim>\<open>x | 0\<close> converts to a signed 32-bit integer, the
  addition is an addition of numbers, and \<^verbatim>\<open>&\<close> converts its operands to 32 bits again.
\<close>

definition align4 :: "int \<Rightarrow> int" where
  "align4 x = sint ((word_of_int (sint (word_of_int x :: 32 word) + 3) :: 32 word) AND - 4)"

text \<open>The \<^verbatim>\<open>%\<close> of JavaScript on integers: the sign is the dividend's.\<close>

definition js_rem :: "int \<Rightarrow> int \<Rightarrow> int" where
  "js_rem a b = sgn a * (\<bar>a\<bar> mod \<bar>b\<bar>)"

text \<open>\<^verbatim>\<open>pad(content, minPad = 0) = (4 - ((content + minPad) % 4)) % 4 + minPad\<close>\<close>

definition pad :: "int \<Rightarrow> int \<Rightarrow> int" where
  "pad content minPad = js_rem (4 - js_rem (content + minPad) 4) 4 + minPad"

section \<open>Text encoding\<close>

text \<open>A string literal of ASCII characters as a JavaScript string.\<close>

definition js :: "string \<Rightarrow> jsstring" where
  "js cs = map of_char cs"

text \<open>
  The string iterator (\<^verbatim>\<open>[...str]\<close>) walks code points: a high surrogate followed by a
  low one is one code point, any other code unit stands for itself.
\<close>

definition is_high :: "16 word \<Rightarrow> bool" where
  "is_high u = (0xD800 \<le> unat u \<and> unat u \<le> 0xDBFF)"

definition is_low :: "16 word \<Rightarrow> bool" where
  "is_low u = (0xDC00 \<le> unat u \<and> unat u \<le> 0xDFFF)"

fun code_points :: "jsstring \<Rightarrow> nat list" where
  "code_points [] = []"
| "code_points [u] = [unat u]"
| "code_points (u # v # us) =
     (if is_high u \<and> is_low v
      then (0x10000 + (unat u - 0xD800) * 0x400 + (unat v - 0xDC00)) # code_points us
      else unat u # code_points (v # us))"

text \<open>\<^verbatim>\<open>TextEncoder\<close> first replaces every lone surrogate by U+FFFD.\<close>

definition scalar_values :: "jsstring \<Rightarrow> nat list" where
  "scalar_values s =
     map (\<lambda>c. if 0xD800 \<le> c \<and> c \<le> 0xDFFF then 0xFFFD else c) (code_points s)"

definition utf8_bytes :: "nat \<Rightarrow> byte list" where
  "utf8_bytes c =
     (if c < 0x80 then [of_nat c]
      else if c < 0x800 then [of_nat (0xC0 + c div 0x40), of_nat (0x80 + c mod 0x40)]
      else if c < 0x10000 then
        [of_nat (0xE0 + c div 0x1000), of_nat (0x80 + c div 0x40 mod 0x40),
         of_nat (0x80 + c mod 0x40)]
      else
        [of_nat (0xF0 + c div 0x40000), of_nat (0x80 + c div 0x1000 mod 0x40),
         of_nat (0x80 + c div 0x40 mod 0x40), of_nat (0x80 + c mod 0x40)])"

text \<open>\<^verbatim>\<open>new TextEncoder().encode(str)\<close>\<close>

definition TextEncoder_encode :: "jsstring \<Rightarrow> byte list" where
  "TextEncoder_encode s = concat (map utf8_bytes (scalar_values s))"

text \<open>
  \<^verbatim>\<open>te.encodeInto(str, dest)\<close> writes whole code points while they fit into the
  destination and stops at the first that does not. \<open>encodeInto s n\<close> is the bytes written
  into a destination of \<open>n\<close> bytes; \<^verbatim>\<open>written\<close> is their number.
\<close>

fun encodeInto_points :: "nat list \<Rightarrow> nat \<Rightarrow> byte list" where
  "encodeInto_points [] n = []"
| "encodeInto_points (c # cs) n =
     (if length (utf8_bytes c) \<le> n
      then utf8_bytes c @ encodeInto_points cs (n - length (utf8_bytes c))
      else [])"

definition encodeInto :: "jsstring \<Rightarrow> nat \<Rightarrow> byte list" where
  "encodeInto s n = encodeInto_points (scalar_values s) n"

text \<open>
  The UTF-8 decoder of \<^verbatim>\<open>TextDecoder\<close> (not fatal): the state is the code point being
  assembled, the number of continuation bytes still needed and the bounds of the next
  continuation byte. A byte that cannot continue a sequence ends it with U+FFFD and is read
  again from the initial state.
\<close>

function utf8_decoder :: "nat \<Rightarrow> nat \<Rightarrow> nat \<Rightarrow> nat \<Rightarrow> byte list \<Rightarrow> nat list" where
  "utf8_decoder cp needed lo hi [] = (if needed \<noteq> 0 then [0xFFFD] else [])"
| "utf8_decoder cp needed lo hi (b # bs) =
     (let x = unat b in
      if needed = 0 then
        (if x \<le> 0x7F then x # utf8_decoder 0 0 0x80 0xBF bs
         else if 0xC2 \<le> x \<and> x \<le> 0xDF then utf8_decoder (x mod 0x20) 1 0x80 0xBF bs
         else if 0xE0 \<le> x \<and> x \<le> 0xEF then
           utf8_decoder (x mod 0x10) 2 (if x = 0xE0 then 0xA0 else 0x80)
             (if x = 0xED then 0x9F else 0xBF) bs
         else if 0xF0 \<le> x \<and> x \<le> 0xF4 then
           utf8_decoder (x mod 8) 3 (if x = 0xF0 then 0x90 else 0x80)
             (if x = 0xF4 then 0x8F else 0xBF) bs
         else 0xFFFD # utf8_decoder 0 0 0x80 0xBF bs)
      else if x < lo \<or> hi < x then 0xFFFD # utf8_decoder 0 0 0x80 0xBF (b # bs)
      else if needed = 1 then (cp * 0x40 + x mod 0x40) # utf8_decoder 0 0 0x80 0xBF bs
      else utf8_decoder (cp * 0x40 + x mod 0x40) (needed - 1) 0x80 0xBF bs)"
  by pat_completeness auto
termination
  by (relation "measures [\<lambda>(cp, needed, lo, hi, bs). length bs,
                          \<lambda>(cp, needed, lo, hi, bs). needed]") auto

definition utf16_units :: "nat \<Rightarrow> jsstring" where
  "utf16_units c =
     (if c < 0x10000 then [of_nat c]
      else [of_nat (0xD800 + (c - 0x10000) div 0x400), of_nat (0xDC00 + (c - 0x10000) mod 0x400)])"

text \<open>
  \<^verbatim>\<open>new TextDecoder().decode(bytes)\<close>: UTF-8, a byte order mark at the start is dropped
  (\<^verbatim>\<open>ignoreBOM\<close> is false by default).
\<close>

definition strip_bom :: "byte list \<Rightarrow> byte list" where
  "strip_bom bs = (if take 3 bs = [0xEF, 0xBB, 0xBF] then drop 3 bs else bs)"

definition TextDecoder_decode :: "byte list \<Rightarrow> jsstring" where
  "TextDecoder_decode bs = concat (map utf16_units (utf8_decoder 0 0 0x80 0xBF (strip_bom bs)))"

section \<open>Typed arrays and DataView\<close>

text \<open>\<^verbatim>\<open>new Uint8Array(length)\<close>: zero-filled; a negative length is a \<open>RangeError\<close>.\<close>

definition new_Uint8Array :: "int \<Rightarrow> error + byte list" where
  "new_Uint8Array n = (if n < 0 then Inl RangeError else Inr (replicate (nat n) 0))"

text \<open>
  \<^verbatim>\<open>new Uint8Array(buffer, byteOffset, length)\<close> on a buffer that starts at byte 0 of the
  array at hand: the bytes \<open>off ..< off + len\<close>.
\<close>

definition Uint8Array_view :: "byte list \<Rightarrow> int \<Rightarrow> int \<Rightarrow> error + byte list" where
  "Uint8Array_view buf off len =
     (if off < 0 \<or> len < 0 \<or> int (length buf) < off + len then Inl RangeError
      else Inr (take (nat len) (drop (nat off) buf)))"

definition write_at :: "byte list \<Rightarrow> nat \<Rightarrow> byte list \<Rightarrow> byte list" where
  "write_at buf off src = take off buf @ src @ drop (off + length src) buf"

text \<open>\<^verbatim>\<open>packet[i] = v\<close>: an index outside the array is ignored.\<close>

definition set_index :: "byte list \<Rightarrow> int \<Rightarrow> byte \<Rightarrow> byte list" where
  "set_index buf i v = (if 0 \<le> i \<and> i < int (length buf) then buf[nat i := v] else buf)"

text \<open>\<^verbatim>\<open>data[i]\<close>: \<^verbatim>\<open>undefined\<close> outside the array.\<close>

definition get_index :: "byte list \<Rightarrow> int \<Rightarrow> byte option" where
  "get_index buf i = (if 0 \<le> i \<and> i < int (length buf) then Some (buf ! nat i) else None)"

text \<open>\<^verbatim>\<open>packet.set(src, off)\<close>\<close>

definition set_bytes :: "byte list \<Rightarrow> byte list \<Rightarrow> int \<Rightarrow> error + byte list" where
  "set_bytes buf src off =
     (if off < 0 \<or> int (length buf) < int (length src) + off then Inl RangeError
      else Inr (write_at buf (nat off) src))"

text \<open>
  \<^verbatim>\<open>te.encodeInto(str, new Uint8Array(packet.buffer, offset))\<close>: the destination is the
  rest of the buffer from \<open>offset\<close>. The result is the buffer and \<^verbatim>\<open>written\<close>.
\<close>

definition encodeInto_at :: "jsstring \<Rightarrow> byte list \<Rightarrow> int \<Rightarrow> error + byte list \<times> int" where
  "encodeInto_at str packet offset =
     (if offset < 0 \<or> int (length packet) < offset then Inl RangeError
      else let bs = encodeInto str (length packet - nat offset)
           in Inr (write_at packet (nat offset) bs, int (length bs)))"

text \<open>Big-endian byte order (\<^verbatim>\<open>littleEndian = false\<close>).\<close>

definition be32 :: "32 word \<Rightarrow> byte list" where
  "be32 w = [ucast (drop_bit 24 w), ucast (drop_bit 16 w), ucast (drop_bit 8 w), ucast w]"

definition be64 :: "64 word \<Rightarrow> byte list" where
  "be64 w =
     [ucast (drop_bit 56 w), ucast (drop_bit 48 w), ucast (drop_bit 40 w), ucast (drop_bit 32 w),
      ucast (drop_bit 24 w), ucast (drop_bit 16 w), ucast (drop_bit 8 w), ucast w]"

definition word_of_be :: "byte list \<Rightarrow> 'a::len word" where
  "word_of_be bs = foldl (\<lambda>acc b. push_bit 8 acc OR ucast b) 0 bs"

text \<open>
  The conversion of a number to 32 bits, as \<^verbatim>\<open>setInt32\<close> makes it: modulo \<open>2^32\<close> on an
  integer, 0 on a zero, an infinity or NaN. The codec converts only numbers that \<open>isInt\<close>
  accepts and lengths; the truncation of a finite non-integer is not modelled.
\<close>

fun ToInt32 :: "number \<Rightarrow> 32 word" where
  "ToInt32 (IntNum n) = word_of_int n"
| "ToInt32 NegZero = 0"
| "ToInt32 (Infinity s) = 0"
| "ToInt32 (NonInt x) = 0"

text \<open>
  The accessors of a \<^verbatim>\<open>DataView\<close> over the whole buffer: an offset that is negative or
  leaves fewer bytes than the field has is a \<open>RangeError\<close>.
\<close>

definition dv_read :: "byte list \<Rightarrow> int \<Rightarrow> nat \<Rightarrow> error + byte list" where
  "dv_read buf off n =
     (if off < 0 \<or> int (length buf) < off + int n then Inl RangeError
      else Inr (take n (drop (nat off) buf)))"

definition getInt32 :: "byte list \<Rightarrow> int \<Rightarrow> error + int" where
  "getInt32 buf off =
     (case dv_read buf off 4 of Inl e \<Rightarrow> Inl e
      | Inr bs \<Rightarrow> Inr (sint (word_of_be bs :: 32 word)))"

definition dv_getFloat32 :: "DataView \<Rightarrow> byte list \<Rightarrow> int \<Rightarrow> error + number" where
  "dv_getFloat32 dv buf off =
     (case dv_read buf off 4 of Inl e \<Rightarrow> Inl e | Inr bs \<Rightarrow> Inr (getFloat32 dv (word_of_be bs)))"

definition dv_getFloat64 :: "DataView \<Rightarrow> byte list \<Rightarrow> int \<Rightarrow> error + number" where
  "dv_getFloat64 dv buf off =
     (case dv_read buf off 8 of Inl e \<Rightarrow> Inl e | Inr bs \<Rightarrow> Inr (getFloat64 dv (word_of_be bs)))"

text \<open>\<^verbatim>\<open>Math.round(num) === num\<close>\<close>

fun isInt :: "number \<Rightarrow> bool" where
  "isInt (NonInt x) = False"
| "isInt n = True"

section \<open>The optimized encoder\<close>

text \<open>
  The sizing loop of \<^verbatim>\<open>encodeOSC\<close> sets \<^verbatim>\<open>tt[i]\<close> and adds to \<^verbatim>\<open>packet_size\<close> for each
  argument; \<open>encodeOSC_tag\<close> and \<open>encodeOSC_size\<close> are the two effects of one iteration.
\<close>

fun encodeOSC_tag :: "OSCEncoderOptions \<Rightarrow> OSCArg \<Rightarrow> byte" where
  "encodeOSC_tag options (OscBoolean b) = (if b then ASCII_T else ASCII_F)"
| "encodeOSC_tag options (OscString str) = ASCII_s"
| "encodeOSC_tag options (OscNumber n) =
     (if isInt n then ASCII_i else if f64 options then ASCII_d else ASCII_f)"
| "encodeOSC_tag options (OscBlob blob) = ASCII_b"

fun encodeOSC_size :: "OSCEncoderOptions \<Rightarrow> OSCArg \<Rightarrow> int" where
  "encodeOSC_size options (OscBoolean b) = 0"
| "encodeOSC_size options (OscString str) = align4 (int (length str) + 1)"
| "encodeOSC_size options (OscNumber n) =
     (if isInt n then 4 else if f64 options then 8 else 4)"
| "encodeOSC_size options (OscBlob blob) = align4 (int (length blob)) + 4"

text \<open>
  One iteration of the writing loop, \<^verbatim>\<open>switch (tt[i])\<close>, on the buffer and the cursor.
  The source casts \<^verbatim>\<open>args[i]\<close> to the type its tag stands for; the tag was set from that
  very argument, so each type of argument meets only its own tags, and \<open>T\<close> and \<open>F\<close> have no
  case.
\<close>

fun encodeOSC_write ::
  "DataView \<Rightarrow> byte \<times> OSCArg \<Rightarrow> byte list \<times> int \<Rightarrow> error + byte list \<times> int" where
  "encodeOSC_write dv (t, OscString str) (packet, offset) =
     (if t = ASCII_s then
        (case encodeInto_at str packet offset of Inl e \<Rightarrow> Inl e
         | Inr (packet', written) \<Rightarrow> Inr (packet', offset + align4 (written + 1)))
      else Inr (packet, offset))"
| "encodeOSC_write dv (t, OscNumber n) (packet, offset) =
     (if t = ASCII_i then
        (case set_bytes packet (be32 (ToInt32 n)) offset of Inl e \<Rightarrow> Inl e
         | Inr packet' \<Rightarrow> Inr (packet', offset + 4))
      else if t = ASCII_f then
        (case set_bytes packet (be32 (setFloat32 dv n)) offset of Inl e \<Rightarrow> Inl e
         | Inr packet' \<Rightarrow> Inr (packet', offset + 4))
      else if t = ASCII_d then
        (case set_bytes packet (be64 (setFloat64 dv n)) offset of Inl e \<Rightarrow> Inl e
         | Inr packet' \<Rightarrow> Inr (packet', offset + 8))
      else Inr (packet, offset))"
| "encodeOSC_write dv (t, OscBlob blob) (packet, offset) =
     (if t = ASCII_b then
        (case set_bytes packet (be32 (word_of_int (int (length blob)))) offset of Inl e \<Rightarrow> Inl e
         | Inr packet' \<Rightarrow>
             (case set_bytes packet' blob (offset + 4) of Inl e \<Rightarrow> Inl e
              | Inr packet'' \<Rightarrow> Inr (packet'', offset + 4 + align4 (int (length blob)))))
      else Inr (packet, offset))"
| "encodeOSC_write dv (t, OscBoolean b) (packet, offset) = Inr (packet, offset)"

fun encodeOSC_loop ::
  "DataView \<Rightarrow> (byte \<times> OSCArg) list \<Rightarrow> byte list \<times> int \<Rightarrow> error + byte list \<times> int" where
  "encodeOSC_loop dv [] st = Inr st"
| "encodeOSC_loop dv (ta # tas) st =
     (case encodeOSC_write dv ta st of Inl e \<Rightarrow> Inl e | Inr st' \<Rightarrow> encodeOSC_loop dv tas st')"

definition encodeOSC ::
  "DataView \<Rightarrow> jsstring \<Rightarrow> OSCArg list \<Rightarrow> OSCEncoderOptions \<Rightarrow> error + byte list" where
  "encodeOSC dv addr args options =
     (let tt = map (encodeOSC_tag options) args;
          packet_size = align4 (int (length addr) + 1) + align4 (int (length tt) + 2)
                        + sum_list (map (encodeOSC_size options) args)
      in case new_Uint8Array (packet_size + oversize options) of Inl e \<Rightarrow> Inl e
         | Inr packet0 \<Rightarrow>
      (case encodeInto_at addr packet0 0 of Inl e \<Rightarrow> Inl e
         | Inr (packet1, written) \<Rightarrow>
      (let offset1 = align4 (written + 1);
           packet2 = set_index packet1 offset1 ASCII_COMMA
       in case set_bytes packet2 tt (offset1 + 1) of Inl e \<Rightarrow> Inl e
         | Inr packet3 \<Rightarrow>
      (case encodeOSC_loop dv (zip tt args) (packet3, align4 (offset1 + int (length tt) + 2)) of
           Inl e \<Rightarrow> Inl e
         | Inr (packet, offset) \<Rightarrow>
             if offset > int (length packet)
             then Inl (OSCProtocolError (More_bytes_written offset (int (length packet))))
             else Uint8Array_view packet 0 offset))))"

section \<open>The UTF-8 encoder variant\<close>

text \<open>
  \<^verbatim>\<open>encodeOSC_UTF8\<close> sizes every string by its encoding. The encodings of the string
  arguments wait in the queue \<^verbatim>\<open>str_args\<close>, which the writing loop shifts; the other cases
  of its \<^verbatim>\<open>switch\<close> are those of \<^verbatim>\<open>encodeOSC\<close>.
\<close>

fun encodeOSC_UTF8_size :: "OSCEncoderOptions \<Rightarrow> OSCArg \<Rightarrow> int" where
  "encodeOSC_UTF8_size options (OscString str) =
     align4 (int (length (TextEncoder_encode str)) + 1)"
| "encodeOSC_UTF8_size options a = encodeOSC_size options a"

fun str_arg :: "OSCArg \<Rightarrow> byte list list" where
  "str_arg (OscString str) = [TextEncoder_encode str]"
| "str_arg a = []"

fun encodeOSC_UTF8_write ::
  "DataView \<Rightarrow> byte \<times> OSCArg \<Rightarrow> byte list \<times> int \<times> byte list list
     \<Rightarrow> error + byte list \<times> int \<times> byte list list" where
  "encodeOSC_UTF8_write dv (t, a) (packet, offset, str_args) =
     (if t = ASCII_s then
        (case str_args of
           [] \<Rightarrow> Inl TypeError
         | str # rest \<Rightarrow>
             (case set_bytes packet str offset of Inl e \<Rightarrow> Inl e
              | Inr packet' \<Rightarrow> Inr (packet', offset + align4 (int (length str) + 1), rest)))
      else
        (case encodeOSC_write dv (t, a) (packet, offset) of Inl e \<Rightarrow> Inl e
         | Inr (packet', offset') \<Rightarrow> Inr (packet', offset', str_args)))"

fun encodeOSC_UTF8_loop ::
  "DataView \<Rightarrow> (byte \<times> OSCArg) list \<Rightarrow> byte list \<times> int \<times> byte list list
     \<Rightarrow> error + byte list \<times> int \<times> byte list list" where
  "encodeOSC_UTF8_loop dv [] st = Inr st"
| "encodeOSC_UTF8_loop dv (ta # tas) st =
     (case encodeOSC_UTF8_write dv ta st of Inl e \<Rightarrow> Inl e
      | Inr st' \<Rightarrow> encodeOSC_UTF8_loop dv tas st')"

definition encodeOSC_UTF8 ::
  "DataView \<Rightarrow> jsstring \<Rightarrow> OSCArg list \<Rightarrow> OSCEncoderOptions \<Rightarrow> error + byte list" where
  "encodeOSC_UTF8 dv addr args options =
     (let tt = map (encodeOSC_tag options) args;
          addr_enc = TextEncoder_encode addr;
          tt_start = align4 (int (length addr_enc) + 1);
          tt_end_offset = align4 (tt_start + int (length tt) + 2);
          packet_size = tt_end_offset + sum_list (map (encodeOSC_UTF8_size options) args);
          str_args = concat (map str_arg args)
      in case new_Uint8Array packet_size of Inl e \<Rightarrow> Inl e
         | Inr packet0 \<Rightarrow>
      (case set_bytes packet0 addr_enc 0 of Inl e \<Rightarrow> Inl e
         | Inr packet1 \<Rightarrow>
      (case set_bytes (set_index packet1 tt_start ASCII_COMMA) tt (tt_start + 1) of
           Inl e \<Rightarrow> Inl e
         | Inr packet3 \<Rightarrow>
      (case encodeOSC_UTF8_loop dv (zip tt args) (packet3, tt_end_offset, str_args) of
           Inl e \<Rightarrow> Inl e
         | Inr (packet, offset, rest) \<Rightarrow>
             if offset \<noteq> packet_size then Inl AssertionError
             else Uint8Array_view packet 0 offset))))"

section \<open>The reference encoder\<close>

text \<open>
  \<^verbatim>\<open>oscString(str)\<close> of \<^verbatim>\<open>encodeOSCSlow\<close>: the content, then \<^verbatim>\<open>pad(content.length, 1)\<close>
  zero bytes; its tag is \<open>s\<close>.
\<close>

definition oscString_enc :: "jsstring \<Rightarrow> error + byte list" where
  "oscString_enc str =
     (let content = TextEncoder_encode str
      in if 0 \<in> set content then Inl (OSCProtocolError (Illegal_characters str))
         else Inr (content @ replicate (nat (pad (int (length content)) 1)) 0))"

text \<open>
  \<^verbatim>\<open>oscBlob(blob)\<close>: a zero-filled array of \<^verbatim>\<open>4 + blob.length + pad(blob.length)\<close> bytes
  with the length at 0 and the blob at 4.
\<close>

definition oscBlob_enc :: "byte list \<Rightarrow> byte list" where
  "oscBlob_enc blob =
     be32 (word_of_int (int (length blob))) @ blob
       @ replicate (nat (pad (int (length blob)) 0)) 0"

text \<open>One step of the generator \<^verbatim>\<open>argsGen\<close>: the tag character and the payload.\<close>

fun encodeOSCSlow_arg :: "DataView \<Rightarrow> bool \<Rightarrow> OSCArg \<Rightarrow> error + 16 word \<times> byte list" where
  "encodeOSCSlow_arg dv opt_f64 (OscString str) =
     (case oscString_enc str of Inl e \<Rightarrow> Inl e | Inr bs \<Rightarrow> Inr (115, bs))"
| "encodeOSCSlow_arg dv opt_f64 (OscBoolean b) = Inr (if b then 84 else 70, [])"
| "encodeOSCSlow_arg dv opt_f64 (OscNumber n) =
     (if isInt n then Inr (105, be32 (ToInt32 n))
      else if opt_f64 then Inr (100, be64 (setFloat64 dv n))
      else Inr (102, be32 (setFloat32 dv n)))"
| "encodeOSCSlow_arg dv opt_f64 (OscBlob blob) = Inr (98, oscBlob_enc blob)"

fun encodeOSCSlow_argsGen ::
  "DataView \<Rightarrow> bool \<Rightarrow> OSCArg list \<Rightarrow> error + (16 word \<times> byte list) list" where
  "encodeOSCSlow_argsGen dv opt_f64 [] = Inr []"
| "encodeOSCSlow_argsGen dv opt_f64 (a # as) =
     (case encodeOSCSlow_arg dv opt_f64 a of Inl e \<Rightarrow> Inl e
      | Inr x \<Rightarrow>
          (case encodeOSCSlow_argsGen dv opt_f64 as of Inl e \<Rightarrow> Inl e
           | Inr xs \<Rightarrow> Inr (x # xs)))"

text \<open>
  \<^verbatim>\<open>encodeOSCSlow(addr, args, opt)\<close>; \<open>opt_f64\<close> is \<^verbatim>\<open>opt?.f64\<close>. The address is checked
  first, the arguments are generated next, then the address and the type tag are encoded;
  \<^verbatim>\<open>pack\<close> concatenates.
\<close>

definition encodeOSCSlow ::
  "DataView \<Rightarrow> jsstring \<Rightarrow> OSCArg list \<Rightarrow> bool \<Rightarrow> error + byte list" where
  "encodeOSCSlow dv addr args opt_f64 =
     (if take 1 addr \<noteq> [47] then Inl (OSCProtocolError Addr_without_slash)
      else
        (case encodeOSCSlow_argsGen dv opt_f64 args of Inl e \<Rightarrow> Inl e
         | Inr argData \<Rightarrow>
        (case oscString_enc addr of Inl e \<Rightarrow> Inl e
         | Inr addr_bytes \<Rightarrow>
        (case oscString_enc (44 # map fst argData) of Inl e \<Rightarrow> Inl e
         | Inr tag_bytes \<Rightarrow> Inr (concat (addr_bytes # tag_bytes # map snd argData))))))"

section \<open>The optimized decoder\<close>

text \<open>\<^verbatim>\<open>data.indexOf(x, fromIndex)\<close>: a negative start counts from the end; \<open>-1\<close> if absent.\<close>

definition indexOf :: "byte list \<Rightarrow> byte \<Rightarrow> int \<Rightarrow> int" where
  "indexOf data x fromIndex =
     (let len = int (length data);
          k = (if fromIndex < 0 then max (len + fromIndex) 0 else fromIndex);
          rest = drop (nat k) data;
          n = length (takeWhile (\<lambda>b. b \<noteq> x) rest)
      in if n < length rest then k + int n else - 1)"

text \<open>\<^verbatim>\<open>data.slice(start, end)\<close>: both ends are clamped, negative ones count from the end.\<close>

definition slice :: "byte list \<Rightarrow> int \<Rightarrow> int \<Rightarrow> byte list" where
  "slice data start stop =
     (let len = int (length data);
          k = (if start < 0 then max (len + start) 0 else min start len);
          final = (if stop < 0 then max (len + stop) 0 else min stop len)
      in take (nat (final - k)) (drop (nat k) data))"

text \<open>
  One iteration of the argument loop of \<^verbatim>\<open>decodeOSC\<close>: what is stored in \<^verbatim>\<open>args[i]\<close>
  (\<open>None\<close> when no case of the \<^verbatim>\<open>switch\<close> matches and the slot stays empty) and the new
  offset. The packet is taken to start at byte 0 of its buffer (\<^verbatim>\<open>data.byteOffset = 0\<close>).
\<close>

definition decodeOSC_arg ::
  "DataView \<Rightarrow> byte list \<Rightarrow> byte \<Rightarrow> int \<Rightarrow> error + OSCArg option \<times> int" where
  "decodeOSC_arg dv data t offset =
     (if t = ASCII_s then
        (let str_end = indexOf data ASCII_NULL offset
         in case Uint8Array_view data offset (str_end - offset) of Inl e \<Rightarrow> Inl e
            | Inr bs \<Rightarrow> Inr (Some (OscString (TextDecoder_decode bs)), align4 (str_end + 1)))
      else if t = ASCII_i then
        (case getInt32 data offset of Inl e \<Rightarrow> Inl e
         | Inr v \<Rightarrow> Inr (Some (OscNumber (IntNum v)), offset + 4))
      else if t = ASCII_b then
        (case getInt32 data offset of Inl e \<Rightarrow> Inl e
         | Inr len \<Rightarrow>
             Inr (Some (OscBlob (slice data (offset + 4) (offset + 4 + len))),
                  offset + 4 + align4 len))
      else if t = ASCII_f then
        (case dv_getFloat32 dv data offset of Inl e \<Rightarrow> Inl e
         | Inr v \<Rightarrow> Inr (Some (OscNumber v), offset + 4))
      else if t = ASCII_d then
        (case dv_getFloat64 dv data offset of Inl e \<Rightarrow> Inl e
         | Inr v \<Rightarrow> Inr (Some (OscNumber v), offset + 8))
      else if t = ASCII_T then Inr (Some (OscBoolean True), offset)
      else if t = ASCII_F then Inr (Some (OscBoolean False), offset)
      else Inr (None, offset))"

fun decodeOSC_loop ::
  "DataView \<Rightarrow> byte list \<Rightarrow> byte list \<Rightarrow> int \<Rightarrow> error + OSCArg option list" where
  "decodeOSC_loop dv data [] offset = Inr []"
| "decodeOSC_loop dv data (t # ts) offset =
     (case decodeOSC_arg dv data t offset of Inl e \<Rightarrow> Inl e
      | Inr (a, offset') \<Rightarrow>
          (case decodeOSC_loop dv data ts offset' of Inl e \<Rightarrow> Inl e
           | Inr as \<Rightarrow> Inr (a # as)))"

text \<open>
  \<^verbatim>\<open>decodeOSC(data)\<close>. \<^verbatim>\<open>Array(n)\<close> has \<open>n\<close> empty slots and is a \<open>RangeError\<close> for a
  negative \<open>n\<close>; the loop reads the tags \<^verbatim>\<open>data[tt_offset + 1 .. tt_end - 1]\<close>.
\<close>

definition decodeOSC :: "DataView \<Rightarrow> byte list \<Rightarrow> error + jsstring \<times> OSCArg option list" where
  "decodeOSC dv data =
     (if js_rem (int (length data)) 4 \<noteq> 0 then Inl (OSCProtocolError Length_not_multiple_of_4)
      else if length data < 8 then Inl (OSCProtocolError Packet_too_short)
      else
        (let addr_end = indexOf data ASCII_NULL 0
         in case Uint8Array_view data 0 addr_end of Inl e \<Rightarrow> Inl e
            | Inr addr_bytes \<Rightarrow>
        (let addr = TextDecoder_decode addr_bytes;
             tt_offset = align4 (addr_end + 1);
             tt_end = indexOf data ASCII_NULL tt_offset;
             offset = align4 (tt_end + 1)
         in if get_index data tt_offset \<noteq> Some ASCII_COMMA
            then Inl (OSCProtocolError Invalid_type_tag)
            else if tt_end - tt_offset - 1 < 0 then Inl RangeError
            else
              (case decodeOSC_loop dv data
                      (take (nat (tt_end - tt_offset - 1)) (drop (nat (tt_offset + 1)) data))
                      offset of
                 Inl e \<Rightarrow> Inl e
               | Inr args \<Rightarrow> Inr (addr, args)))))"

section \<open>The reference decoder\<close>

text \<open>\<^verbatim>\<open>consumeToken()\<close> reads \<^verbatim>\<open>data[pos]\<close>, which is \<^verbatim>\<open>undefined\<close> past the end.\<close>

definition consumeToken :: "byte list \<Rightarrow> nat \<Rightarrow> byte option" where
  "consumeToken data pos = (if pos < length data then Some (data ! pos) else None)"

text \<open>
  The generator \<^verbatim>\<open>oscStringGen\<close> reads blocks of four tokens (\<open>read4\<close>, the inner loop) and
  yields those that are not \<^verbatim>\<open>=== 0\<close>, until a block held a 0. Nothing bounds the loop: where it does not return, the
  value is \<open>None\<close>. The result is the tokens yielded and the position reached.
\<close>

definition read4 :: "byte list \<Rightarrow> nat \<Rightarrow> byte option list" where
  "read4 data pos =
     [consumeToken data pos, consumeToken data (pos + 1), consumeToken data (pos + 2),
      consumeToken data (pos + 3)]"

partial_function (option) oscStringGen ::
  "byte list \<Rightarrow> nat \<Rightarrow> byte option list \<Rightarrow> (byte option list \<times> nat) option" where
  "oscStringGen data pos acc =
     (if Some 0 \<in> set (read4 data pos)
      then Some (acc @ filter (\<lambda>t. t \<noteq> Some 0) (read4 data pos), pos + 4)
      else oscStringGen data (pos + 4) (acc @ filter (\<lambda>t. t \<noteq> Some 0) (read4 data pos)))"

text \<open>
  \<^verbatim>\<open>new Uint8Array(iterable)\<close> stores \<^verbatim>\<open>undefined\<close> as 0; \<^verbatim>\<open>oscString()\<close> decodes the
  bytes.
\<close>

definition token_byte :: "byte option \<Rightarrow> byte" where
  "token_byte t = (case t of None \<Rightarrow> 0 | Some b \<Rightarrow> b)"

definition oscString :: "byte list \<Rightarrow> nat \<Rightarrow> (jsstring \<times> nat) option" where
  "oscString data pos =
     (case oscStringGen data pos [] of None \<Rightarrow> None
      | Some (tokens, pos') \<Rightarrow> Some (TextDecoder_decode (map token_byte tokens), pos'))"

text \<open>
  \<^verbatim>\<open>oscBlob()\<close>: the size, that many tokens, then \<^verbatim>\<open>pad(size)\<close> tokens that are dropped.
\<close>

definition oscBlob :: "byte list \<Rightarrow> nat \<Rightarrow> error + byte list \<times> nat" where
  "oscBlob data pos =
     (case getInt32 data (int pos) of Inl e \<Rightarrow> Inl e
      | Inr blob_size \<Rightarrow>
          if blob_size < 0 then Inl RangeError
          else Inr (map (\<lambda>p. token_byte (consumeToken data p))
                      [pos + 4 ..< pos + 4 + nat blob_size],
                    pos + 4 + nat blob_size + nat (pad blob_size 0)))"

text \<open>
  One step of the generator \<^verbatim>\<open>argsGen\<close> of \<^verbatim>\<open>decodeOSCSlow\<close> on a character of the type
  tag: what it yields, if anything, and the new position.
\<close>

definition decodeOSCSlow_arg ::
  "DataView \<Rightarrow> byte list \<Rightarrow> nat \<Rightarrow> nat \<Rightarrow> (error + OSCArg option \<times> nat) option" where
  "decodeOSCSlow_arg dv data argType pos =
     (if argType = 115 then
        (case oscString data pos of None \<Rightarrow> None
         | Some (str, pos') \<Rightarrow> Some (Inr (Some (OscString str), pos')))
      else if argType = 105 then
        (case getInt32 data (int pos) of Inl e \<Rightarrow> Some (Inl e)
         | Inr v \<Rightarrow> Some (Inr (Some (OscNumber (IntNum v)), pos + 4)))
      else if argType = 98 then
        (case oscBlob data pos of Inl e \<Rightarrow> Some (Inl e)
         | Inr (blob, pos') \<Rightarrow> Some (Inr (Some (OscBlob blob), pos')))
      else if argType = 102 then
        (case dv_getFloat32 dv data (int pos) of Inl e \<Rightarrow> Some (Inl e)
         | Inr v \<Rightarrow> Some (Inr (Some (OscNumber v), pos + 4)))
      else if argType = 100 then
        (case dv_getFloat64 dv data (int pos) of Inl e \<Rightarrow> Some (Inl e)
         | Inr v \<Rightarrow> Some (Inr (Some (OscNumber v), pos + 8)))
      else if argType = 84 then Some (Inr (Some (OscBoolean True), pos))
      else if argType = 70 then Some (Inr (Some (OscBoolean False), pos))
      else Some (Inr (None, pos)))"

fun decodeOSCSlow_argsGen ::
  "DataView \<Rightarrow> byte list \<Rightarrow> nat list \<Rightarrow> nat \<Rightarrow> (error + OSCArg list) option" where
  "decodeOSCSlow_argsGen dv data [] pos = Some (Inr [])"
| "decodeOSCSlow_argsGen dv data (argType # typeTag) pos =
     (case decodeOSCSlow_arg dv data argType pos of None \<Rightarrow> None
      | Some (Inl e) \<Rightarrow> Some (Inl e)
      | Some (Inr (y, pos')) \<Rightarrow>
          (case decodeOSCSlow_argsGen dv data typeTag pos' of None \<Rightarrow> None
           | Some (Inl e) \<Rightarrow> Some (Inl e)
           | Some (Inr as) \<Rightarrow> Some (Inr (case y of None \<Rightarrow> as | Some a \<Rightarrow> a # as))))"

text \<open>
  \<^verbatim>\<open>decodeOSCSlow(data)\<close>: \<open>None\<close> where the call does not return, otherwise the error
  thrown or the pair returned. The type tag is spread into its code points; the first is
  shifted off and must be the comma.
\<close>

definition decodeOSCSlow ::
  "DataView \<Rightarrow> byte list \<Rightarrow> (error + jsstring \<times> OSCArg list) option" where
  "decodeOSCSlow dv data =
     (if js_rem (int (length data)) 4 \<noteq> 0
      then Some (Inl (OSCProtocolError Length_not_multiple_of_4))
      else if length data < 8 then Some (Inl (OSCProtocolError Packet_too_short))
      else
        (case oscString data 0 of None \<Rightarrow> None
         | Some (addr, pos) \<Rightarrow>
             if take 1 addr \<noteq> [47] then Some (Inl (OSCProtocolError Addr_without_slash))
             else
               (case oscString data pos of None \<Rightarrow> None
                | Some (tag, pos') \<Rightarrow>
                    (case code_points tag of
                       [] \<Rightarrow> Some (Inl (OSCProtocolError Missing_type_tag))
                     | c # typeTag \<Rightarrow>
                         if c \<noteq> 44 then Some (Inl (OSCProtocolError Missing_type_tag))
                         else
                           (case decodeOSCSlow_argsGen dv data typeTag pos' of None \<Rightarrow> None
                            | Some (Inl e) \<Rightarrow> Some (Inl e)
                            | Some (Inr args) \<Rightarrow> Some (Inr (addr, args)))))))"

section \<open>The wire format and the inputs of the claims\<close>

text \<open>
  The layout the encoders are compared with: a string field is the content, a NUL and zero
  bytes up to the next multiple of 4; the payloads follow the address and the type tag in
  the order of the arguments.
\<close>

definition wire_string :: "byte list \<Rightarrow> byte list" where
  "wire_string bs = bs @ replicate (4 - length bs mod 4) 0"

fun wire_arg :: "DataView \<Rightarrow> bool \<Rightarrow> OSCArg \<Rightarrow> byte list" where
  "wire_arg dv opt_f64 (OscString str) = wire_string (TextEncoder_encode str)"
| "wire_arg dv opt_f64 (OscBoolean b) = []"
| "wire_arg dv opt_f64 (OscNumber n) =
     (if isInt n then be32 (ToInt32 n)
      else if opt_f64 then be64 (setFloat64 dv n)
      else be32 (setFloat32 dv n))"
| "wire_arg dv opt_f64 (OscBlob blob) =
     be32 (word_of_int (int (length blob))) @ blob
       @ replicate ((4 - length blob mod 4) mod 4) 0"

definition wire_packet :: "DataView \<Rightarrow> OSCEncoderOptions \<Rightarrow> jsstring \<Rightarrow> OSCArg list \<Rightarrow> byte list"
  where
  "wire_packet dv options addr args =
     wire_string (TextEncoder_encode addr)
     @ wire_string (ASCII_COMMA # map (encodeOSC_tag options) args)
     @ concat (map (wire_arg dv (f64 options)) args)"

text \<open>
  The sizes the codec computes with are 32-bit: \<open>align4\<close> works on signed 32-bit integers and
  the length of a blob is an \<^verbatim>\<open>Int32\<close> on the wire. \<open>int32_sized\<close> holds of the messages
  whose packet has at most \<open>2^31 - 4\<close> bytes.
\<close>

definition int32_sized :: "DataView \<Rightarrow> OSCEncoderOptions \<Rightarrow> jsstring \<Rightarrow> OSCArg list \<Rightarrow> bool"
  where
  "int32_sized dv options addr args = (length (wire_packet dv options addr args) \<le> 2147483644)"

text \<open>Text without NUL, and text of ASCII characters (one byte each in UTF-8).\<close>

definition no_NUL :: "jsstring \<Rightarrow> bool" where
  "no_NUL s = (0 \<notin> set s)"

definition ascii :: "jsstring \<Rightarrow> bool" where
  "ascii s = list_all (\<lambda>u. u < 0x80) s"

fun no_NUL_arg :: "OSCArg \<Rightarrow> bool" where
  "no_NUL_arg (OscString str) = no_NUL str"
| "no_NUL_arg a = True"

fun ascii_arg :: "OSCArg \<Rightarrow> bool" where
  "ascii_arg (OscString str) = ascii str"
| "ascii_arg a = True"

text \<open>
  The numbers that the wire format of \<^verbatim>\<open>encodeOSC\<close> without options holds exactly: the
  integers of 32 bits (negative zero and the infinities are written as the integer 0), and
  the non-integers that \<^verbatim>\<open>getFloat32\<close> reads back as written.
\<close>

fun exact_number :: "DataView \<Rightarrow> number \<Rightarrow> bool" where
  "exact_number dv (IntNum n) = (- 2147483648 \<le> n \<and> n \<le> 2147483647)"
| "exact_number dv NegZero = False"
| "exact_number dv (Infinity s) = False"
| "exact_number dv (NonInt x) = (getFloat32 dv (setFloat32 dv (NonInt x)) = NonInt x)"

fun exact_arg :: "DataView \<Rightarrow> OSCArg \<Rightarrow> bool" where
  "exact_arg dv (OscNumber n) = exact_number dv n"
| "exact_arg dv a = True"

text \<open>
  The tags \<^verbatim>\<open>decodeOSC\<close> loops over, \<^verbatim>\<open>data[tt_offset + 1 .. tt_end - 1]\<close>, and the tags
  that have a case in the \<^verbatim>\<open>switch\<close> of both decoders.
\<close>

definition type_tags :: "byte list \<Rightarrow> byte list" where
  "type_tags data =
     (let tt_offset = align4 (indexOf data ASCII_NULL 0 + 1);
          tt_end = indexOf data ASCII_NULL tt_offset
      in take (nat (tt_end - tt_offset - 1)) (drop (nat (tt_offset + 1)) data))"

definition known_tag :: "byte \<Rightarrow> bool" where
  "known_tag t = (t \<in> {ASCII_s, ASCII_i, ASCII_b, ASCII_f, ASCII_d, ASCII_T, ASCII_F})"

section \<open>Evaluation on concrete inputs\<close>

lemma replicate_numeral: "replicate (numeral k) x = x # replicate (pred_numeral k) x"
  by (simp add: numeral_eq_Suc)

lemma list_update_Cons_numeral: "(x # xs)[numeral k := y] = x # xs[pred_numeral k := y]"
  by (simp add: numeral_eq_Suc)

lemmas codec_defs =
  js_def align4_def js_rem_def pad_def is_high_def is_low_def scalar_values_def utf8_bytes_def
  TextEncoder_encode_def encodeInto_def utf16_units_def strip_bom_def TextDecoder_decode_def
  new_Uint8Array_def Uint8Array_view_def write_at_def set_index_def get_index_def set_bytes_def
  encodeInto_at_def be32_def be64_def word_of_be_def dv_read_def getInt32_def
  dv_getFloat32_def dv_getFloat64_def encodeOSC_def encodeOSC_UTF8_def oscString_enc_def
  oscBlob_enc_def encodeOSCSlow_def indexOf_def slice_def decodeOSC_arg_def decodeOSC_def
  consumeToken_def read4_def token_byte_def oscString_def oscBlob_def decodeOSCSlow_arg_def
  decodeOSCSlow_def no_options_def Let_def replicate_numeral list_update_Cons_numeral

section \<open>Alignment\<close>

lemma and_minus_4: "(k::int) AND - 4 = k div 4 * 4"
proof -
  have "(- 4 :: int) = NOT (mask 2)" by (simp add: mask_eq_exp_minus_1)
  then have "k AND - 4 = k AND NOT (mask 2)" by simp
  also have "\<dots> = push_bit 2 (drop_bit 2 k)"
  proof (rule bit_eqI)
    fix n
    have "2 \<le> n \<Longrightarrow> Suc (Suc (n - 2)) = n" by arith
    then show "bit (k AND NOT (mask 2)) n = bit (push_bit 2 (drop_bit 2 k)) n"
      by (auto simp: bit_simps)
  qed
  also have "\<dots> = k div 4 * 4"
    by (simp add: push_bit_eq_mult drop_bit_eq_div)
  finally show ?thesis .
qed

lemma align4_int: "align4 x = signed_take_bit 31 ((signed_take_bit 31 x + 3) div 4 * 4)"
proof -
  have "(- 4 :: 32 word) = word_of_int (- 4)" by simp
  then have "align4 x = signed_take_bit 31 ((signed_take_bit 31 x + 3) AND - 4)"
    unfolding align4_def by (simp only: word_wi_log_defs sint_sbintrunc') simp
  then show ?thesis by (simp add: and_minus_4)
qed

lemma align4_eq:
  assumes "0 \<le> x" "x \<le> 2147483644"
  shows "align4 x = (x + 3) div 4 * 4"
proof -
  have 1: "signed_take_bit 31 x = x"
    using assms by (simp add: signed_take_bit_int_eq_self)
  have 2: "signed_take_bit 31 ((x + 3) div 4 * 4) = (x + 3) div 4 * 4"
    using assms by (intro signed_take_bit_int_eq_self) auto
  show ?thesis by (simp add: align4_int 1 2)
qed

lemma signed_take_bit_mod4: "signed_take_bit 31 k mod 4 = k mod (4::int)"
proof -
  have "signed_take_bit 31 k = take_bit 32 k - 2 ^ 32 * of_bool (bit k 31)"
    by (simp add: signed_take_bit_eq_take_bit_minus)
  also have "\<dots> = k mod 4294967296 - 4 * (1073741824 * of_bool (bit k 31))"
    by (simp add: take_bit_eq_mod)
  finally have "signed_take_bit 31 k mod 4 = (k mod 4294967296) mod 4"
    by (simp add: mod_diff_eq[symmetric])
  also have "\<dots> = k mod 4" by (rule mod_mod_cancel) simp
  finally show ?thesis .
qed

lemma align4_mod4: "align4 x mod 4 = 0"
  by (simp only: align4_int signed_take_bit_mod4) simp

text \<open>
  C6 as stated, for every non-negative integer, fails where the 32-bit conversion wraps:
  \<^verbatim>\<open>align4(2147483647)\<close> is \<open>-2147483648\<close>.
\<close>

theorem align4_counterexample:
  "\<not> (0 \<le> (2147483647::int) \<longrightarrow>
        align4 2147483647 mod 4 = 0 \<and> 2147483647 \<le> align4 2147483647
        \<and> align4 2147483647 < 2147483647 + 4)"
  by (simp add: align4_def)

text \<open>
  C6, amended: for every integer \<open>x\<close> with \<open>0 \<le> x \<le> 2147483644\<close> (the multiples of 4 that a
  signed 32-bit integer holds), \<open>align4 x\<close> is a multiple of 4, is at least \<open>x\<close> and is below
  \<open>x + 4\<close>; it is the smallest multiple of 4 that is at least \<open>x\<close>.
\<close>

theorem align4_correct:
  assumes "0 \<le> x" and "x \<le> 2147483644"
  shows "align4 x mod 4 = 0 \<and> x \<le> align4 x \<and> align4 x < x + 4
         \<and> (\<forall>m. m mod 4 = 0 \<and> x \<le> m \<longrightarrow> align4 x \<le> m)"
proof -
  have "align4 x = (x + 3) div 4 * 4" using assms by (rule align4_eq)
  then show ?thesis by auto
qed

theorem align4_correct_witness:
  "(0::int) \<le> 5 \<and> (5::int) \<le> 2147483644 \<and> align4 5 mod 4 = 0 \<and> 5 \<le> align4 5 \<and> align4 5 < 5 + 4"
  using align4_correct [of 5] by simp

section \<open>Concrete packets\<close>

text \<open>
  C7 as stated gives the type-tag field 8 bytes (and calls the 12 bytes of the address field
  8). The packet of \<^verbatim>\<open>encodeOSC("/foo/bar", [5, true])\<close> is neither the 12-byte address
  field nor the 8 characters of the address followed by \<open>,iT\<close> padded to 8 bytes and
  \<open>00 00 00 05\<close>.
\<close>

theorem encodeOSC_scenario_counterexample:
  "encodeOSC plain_DataView (js ''/foo/bar'') [OscNumber (IntNum 5), OscBoolean True] no_options
     \<noteq> Inr (map of_char ''/foo/bar'' @ [0, 0, 0, 0] @ map of_char '',iT'' @ [0, 0, 0, 0, 0]
              @ [0, 0, 0, 5])
   \<and> encodeOSC plain_DataView (js ''/foo/bar'') [OscNumber (IntNum 5), OscBoolean True] no_options
     \<noteq> Inr (map of_char ''/foo/bar'' @ map of_char '',iT'' @ [0, 0, 0, 0, 0] @ [0, 0, 0, 5])"
  by (simp add: codec_defs)

text \<open>
  C7, amended: \<^verbatim>\<open>encodeOSC("/foo/bar", [5, true])\<close> is the address field
  \<open>/foo/bar\0\0\0\0\<close> (12 bytes), the type-tag field \<open>,iT\0\<close> (4 bytes, which needs no further
  padding), and the big-endian \<open>00 00 00 05\<close>, with no byte for \<open>true\<close>: 20 bytes. Decoding
  that packet returns \<open>("/foo/bar", [5, true])\<close>.
\<close>

theorem encodeOSC_scenario:
  "encodeOSC dv (js ''/foo/bar'') [OscNumber (IntNum 5), OscBoolean True] no_options
     = Inr (map of_char ''/foo/bar'' @ [0, 0, 0, 0] @ map of_char '',iT'' @ [0] @ [0, 0, 0, 5])
   \<and> decodeOSC dv
         (map of_char ''/foo/bar'' @ [0, 0, 0, 0] @ map of_char '',iT'' @ [0] @ [0, 0, 0, 5])
     = Inr (js ''/foo/bar'', [Some (OscNumber (IntNum 5)), Some (OscBoolean True)])"
  by (simp add: codec_defs)

text \<open>
  C3 does not hold of the optimized codec: \<^verbatim>\<open>encodeOSC("foo", [])\<close> returns a packet and
  \<^verbatim>\<open>decodeOSC\<close> returns its address, where the reference encoder and decoder throw the
  malformed-address error.
\<close>

theorem malformed_address_accepted:
  "encodeOSC dv (js ''foo'') [] no_options = Inr [102, 111, 111, 0, 44, 0, 0, 0]
   \<and> decodeOSC dv [102, 111, 111, 0, 44, 0, 0, 0] = Inr (js ''foo'', [])
   \<and> encodeOSCSlow dv (js ''foo'') [] False = Inl (OSCProtocolError Addr_without_slash)
   \<and> decodeOSCSlow dv [102, 111, 111, 0, 44, 0, 0, 0]
       = Some (Inl (OSCProtocolError Addr_without_slash))"
  by (simp add: codec_defs oscStringGen.simps)

text \<open>
  C4 does not hold of the optimized encoder: \<^verbatim>\<open>encodeOSC("/a", ["a\0b"])\<close> and
  \<^verbatim>\<open>encodeOSC("/a\0b", [])\<close> return packets with the NUL inside, where the reference
  encoder throws the illegal-characters error.
\<close>

theorem embedded_NUL_accepted:
  "encodeOSC dv (js ''/a'') [OscString [97, 0, 98]] no_options
     = Inr [47, 97, 0, 0, 44, 115, 0, 0, 97, 0, 98, 0]
   \<and> encodeOSC dv [47, 97, 0, 98] [] no_options = Inr [47, 97, 0, 98, 0, 0, 0, 0, 44, 0, 0, 0]
   \<and> encodeOSCSlow dv (js ''/a'') [OscString [97, 0, 98]] False
     = Inl (OSCProtocolError (Illegal_characters [97, 0, 98]))
   \<and> encodeOSCSlow dv [47, 97, 0, 98] [] False
     = Inl (OSCProtocolError (Illegal_characters [47, 97, 0, 98]))"
  by (simp add: codec_defs)

text \<open>
  C8 does not hold: \<^verbatim>\<open>encodeOSC("/a", ["\<euro>\<euro>"])\<close> without \<^verbatim>\<open>oversize\<close> (the string is
  twice U+20AC, three bytes each) returns a packet that holds the first character only, and
  decoding it gives the truncated string.
\<close>

theorem multibyte_truncated:
  "encodeOSC dv (js ''/a'') [OscString [0x20AC, 0x20AC]] no_options
     = Inr [47, 97, 0, 0, 44, 115, 0, 0, 0xE2, 0x82, 0xAC, 0]
   \<and> decodeOSC dv [47, 97, 0, 0, 44, 115, 0, 0, 0xE2, 0x82, 0xAC, 0]
     = Inr (js ''/a'', [Some (OscString [0x20AC])])"
  by (simp add: codec_defs)

section \<open>Termination\<close>

lemma consumeToken_Some_drop:
  "consumeToken data (pos + k) = Some b \<Longrightarrow> b \<in> set (drop pos data)"
proof -
  assume "consumeToken data (pos + k) = Some b"
  then have "pos + k < length data" "data ! (pos + k) = b"
    by (auto simp: consumeToken_def split: if_splits)
  then have "drop pos data ! k = b" "k < length (drop pos data)" by auto
  then show ?thesis using nth_mem by blast
qed

text \<open>The generator returns only if a NUL lies at or after its position.\<close>

lemma oscStringGen_Some_NUL:
  assumes "oscStringGen data pos acc = Some r"
  shows "0 \<in> set (drop pos data)"
proof (rule oscStringGen.raw_induct
    [where P = "\<lambda>data pos acc r. 0 \<in> set (drop pos data)", OF _ assms])
  fix gen :: "byte list \<Rightarrow> nat \<Rightarrow> byte option list \<Rightarrow> (byte option list \<times> nat) option"
  fix data pos acc r
  assume IH: "\<And>data pos acc r. gen data pos acc = Some r \<Longrightarrow> 0 \<in> set (drop pos data)"
  assume step: "(if Some 0 \<in> set (read4 data pos)
      then Some (acc @ filter (\<lambda>t. t \<noteq> Some 0) (read4 data pos), pos + 4)
      else gen data (pos + 4) (acc @ filter (\<lambda>t. t \<noteq> Some 0) (read4 data pos))) = Some r"
  show "0 \<in> set (drop pos data)"
  proof (cases "Some 0 \<in> set (read4 data pos)")
    case True
    then have "consumeToken data (pos + 0) = Some 0 \<or> consumeToken data (pos + 1) = Some 0
        \<or> consumeToken data (pos + 2) = Some 0 \<or> consumeToken data (pos + 3) = Some 0"
      by (auto simp: read4_def)
    then show ?thesis using consumeToken_Some_drop by blast
  next
    case False
    with step
    have "gen data (pos + 4) (acc @ filter (\<lambda>t. t \<noteq> Some 0) (read4 data pos)) = Some r"
      by simp
    then have "0 \<in> set (drop (pos + 4) data)" by (rule IH)
    then show ?thesis using set_drop_subset_set_drop[of pos "pos + 4" data] by auto
  qed
qed

lemma oscStringGen_diverges: "0 \<notin> set (drop pos data) \<Longrightarrow> oscStringGen data pos acc = None"
  using oscStringGen_Some_NUL by (cases "oscStringGen data pos acc") auto

text \<open>
  C5 does not hold of \<^verbatim>\<open>decodeOSCSlow\<close>: on the 8 bytes of \<open>/abcdefg\<close>, which hold no NUL,
  the call neither returns nor throws (\<^verbatim>\<open>consumeToken\<close> reads \<^verbatim>\<open>undefined\<close> past the end,
  which is not \<^verbatim>\<open>=== 0\<close>, so \<^verbatim>\<open>oscStringGen\<close> never terminates), where \<^verbatim>\<open>decodeOSC\<close>
  throws.
\<close>

theorem decodeOSCSlow_diverges:
  "decodeOSCSlow dv [47, 97, 98, 99, 100, 101, 102, 103] = None
   \<and> decodeOSC dv [47, 97, 98, 99, 100, 101, 102, 103] = Inl RangeError"
proof
  show "decodeOSCSlow dv [47, 97, 98, 99, 100, 101, 102, 103] = None"
    by (simp add: decodeOSCSlow_def oscString_def oscStringGen_diverges js_rem_def)
  show "decodeOSC dv [47, 97, 98, 99, 100, 101, 102, 103] = Inl RangeError"
    by (simp add: codec_defs)
qed

section \<open>Text encoding of ASCII strings\<close>

lemma code_points_ascii: "ascii s \<Longrightarrow> code_points s = map unat s"
proof (induction s rule: code_points.induct)
  case (3 u v us)
  then have "\<not> is_high u" by (auto simp: ascii_def is_high_def word_less_nat_alt)
  with 3 show ?case by (simp add: ascii_def)
qed simp_all

lemma scalar_values_ascii: "ascii s \<Longrightarrow> scalar_values s = map unat s"
  by (auto simp: scalar_values_def code_points_ascii ascii_def list_all_iff word_less_nat_alt)

lemma TextEncoder_encode_ascii: "ascii s \<Longrightarrow> TextEncoder_encode s = map ucast s"
proof -
  assume a: "ascii s"
  have "concat (map utf8_bytes (map unat s)) = map ucast s" using a
    by (induction s) (auto simp: ascii_def utf8_bytes_def word_less_nat_alt)
  then show ?thesis by (simp add: TextEncoder_encode_def scalar_values_ascii a)
qed

lemma encodeInto_points_fits:
  "length (concat (map utf8_bytes cs)) \<le> n \<Longrightarrow> encodeInto_points cs n = concat (map utf8_bytes cs)"
  by (induction cs arbitrary: n) auto

lemma encodeInto_fits:
  "length (TextEncoder_encode s) \<le> n \<Longrightarrow> encodeInto s n = TextEncoder_encode s"
  by (simp add: encodeInto_def TextEncoder_encode_def encodeInto_points_fits)

lemma length_encodeInto_points_le: "length (encodeInto_points cs n) \<le> n"
proof (induction cs arbitrary: n)
  case (Cons c cs)
  show ?case using Cons[of "n - length (utf8_bytes c)"] by auto
qed simp

lemma length_encodeInto_points_le': "length (encodeInto_points cs n) \<le> length (concat (map utf8_bytes cs))"
  by (induction cs arbitrary: n) auto

lemma utf8_decoder_ascii:
  "list_all (\<lambda>b. b < 0x80) bs \<Longrightarrow> utf8_decoder 0 0 0x80 0xBF bs = map unat bs"
  by (induction bs) (auto simp: word_less_nat_alt)

lemma ucast_byte_unit: "(of_nat (unat (b :: byte)) :: 16 word) = ucast b"
  by simp

lemma TextDecoder_decode_ascii:
  assumes "list_all (\<lambda>b. b < 0x80) bs"
  shows "TextDecoder_decode bs = map ucast bs"
proof -
  have "strip_bom bs = bs"
    using assms by (cases bs) (auto simp: strip_bom_def)
  moreover have "unat b < 65536" for b :: byte
    using unsigned_less[of b, where 'a=nat] by simp
  then have "concat (map utf16_units (map unat bs)) = map ucast bs"
    by (induction bs) (auto simp: utf16_units_def)
  ultimately show ?thesis by (simp add: TextDecoder_decode_def utf8_decoder_ascii assms)
qed

lemma ucast_ucast_ascii: "u < 0x80 \<Longrightarrow> ucast (ucast (u :: 16 word) :: byte) = u"
  by (rule unsigned_word_eqI[where 'a=nat])
     (simp add: unsigned_ucast_eq take_bit_eq_mod word_less_nat_alt unat_mod)

lemma ucast_ascii_less: "u < 0x80 \<Longrightarrow> (ucast (u :: 16 word) :: byte) < 0x80"
  by (simp add: word_less_nat_alt unsigned_ucast_eq take_bit_eq_mod)

lemma decode_encode_ascii: "ascii s \<Longrightarrow> TextDecoder_decode (TextEncoder_encode s) = s"
proof -
  assume a: "ascii s"
  have 1: "list_all (\<lambda>b. b < 0x80) (map ucast s :: byte list)" using a
    by (induction s) (auto simp: ascii_def ucast_ascii_less)
  have 2: "map ucast (map ucast s :: byte list) = s" using a
    by (induction s) (simp_all add: ascii_def ucast_ucast_ascii)
  show ?thesis by (simp only: TextEncoder_encode_ascii[OF a] TextDecoder_decode_ascii[OF 1] 2)
qed

end
